theory Spec2Isabelle
  imports Complex_Main
begin

section \<open>dreamBeam: station geometry, frequency selection and Jones output\<close>

text \<open>
  A shallow embedding of \<^verbatim>\<open>scripts/pointing_jones.py\<close> and
  \<^verbatim>\<open>dreambeam/telescopes/geometry_ingest.py\<close>.

  Conventions of the model.
  \<^item> A float is the real number it stands for, and a complex float a complex number.
    Comparisons of floats are exact. Float arithmetic rounds, so the one arithmetic
    test of the code, \<^verbatim>\<open>np.isclose\<close>, is not computed in the model: it is a library
    function taken as a parameter, with a contract that bounds its rounding.
  \<^item> The code is Python 2 (\<^verbatim>\<open>geometry_ingest.py\<close> uses the print statement):
    \<^verbatim>\<open>None < x\<close> is true for every number, and the \<^verbatim>\<open>S5\<close> column of a
    configuration file is a list of \<^verbatim>\<open>str\<close>.
  \<^item> An exception is a value of type \<open>error\<close>; a function that can raise returns
    \<open>error + 'a\<close> with \<open>Inl\<close> for the exception.
  \<^item> numpy arrays are lists, with the zero-dimensional arrays that \<^verbatim>\<open>squeeze\<close>
    makes kept apart; an index out of range is an \<open>IndexError\<close>.
\<close>

subsection \<open>Exceptions\<close>

datatype message =
    Outside_of_band real string
  | Not_in_list string
  | Substring_not_found
  | Could_not_convert
  | Shape_mismatch

datatype error =
    IOError
  | ValueError message
  | IndexError
  | UnboundLocalError

subsection \<open>Library functions taken as parameters\<close>

text \<open>
  \<^verbatim>\<open>str\<close> of a float and of a complex number, \<^verbatim>\<open>datetime.isoformat\<close>, casacore's
  \<^verbatim>\<open>quantity(...).get_value()\<close> and \<^verbatim>\<open>np.isclose(a, b, atol=...)\<close> (with
  \<^verbatim>\<open>rtol\<close> at its default) are library functions; the model takes them as the fields
  of a record.
\<close>

record 't pylib =
  str_float :: "real \<Rightarrow> string"
  str_complex :: "complex \<Rightarrow> string"
  isoformat :: "'t \<Rightarrow> string"
  quantity_value :: "string \<Rightarrow> real"
  np_isclose :: "real \<Rightarrow> real \<Rightarrow> real \<Rightarrow> bool"

text \<open>
  The contract of \<^verbatim>\<open>np.isclose(a, b, atol=190e3)\<close>. numpy evaluates
  \<^verbatim>\<open>abs(a - b) <= atol + rtol * abs(b)\<close> with \<^verbatim>\<open>rtol = 1e-05\<close> in float64: the
  subtraction, the product, the sum and the constant \<^verbatim>\<open>1e-05\<close> are each rounded with
  a relative error of at most \<^verbatim>\<open>2**-53\<close>. The test therefore holds whenever the
  exact distance is below the exact bound by the factor \<open>1 - slack\<close>, and whenever it
  holds the exact distance is within the factor \<open>1 + slack\<close> of the exact bound; in
  between the contract says nothing. The slack, one part in \<^verbatim>\<open>10**12\<close>, is far more
  than the four roundings add up to.
\<close>

definition rtol :: real where
  "rtol = 1 / 100000"

definition slack :: real where
  "slack = 1 / 1000000000000"

definition float64_isclose :: "(real \<Rightarrow> real \<Rightarrow> real \<Rightarrow> bool) \<Rightarrow> bool" where
  "float64_isclose close =
     (\<forall>a b. (\<bar>a - b\<bar> \<le> (190000 + rtol * \<bar>b\<bar>) * (1 - slack) \<longrightarrow> close a b 190000) \<and>
            (close a b 190000 \<longrightarrow> \<bar>a - b\<bar> \<le> (190000 + rtol * \<bar>b\<bar>) * (1 + slack)))"

subsection \<open>Frequency selection (pointing\_jones.py, line 129)\<close>

text \<open>\<^verbatim>\<open>np.where(mask)[0]\<close>: the indices at which the mask holds, ascending.\<close>

definition np_where :: "bool list \<Rightarrow> nat list" where
  "np_where bs = filter (\<lambda>i. bs ! i) [0..<length bs]"

text \<open>
  \<^verbatim>\<open>np.where(np.isclose(freqs, freq, atol=190e3))[0][0]\<close>: the first index at
  which the test holds; \<^verbatim>\<open>[0]\<close> on the empty index array raises IndexError.
\<close>

definition frqIdx_of :: "'t pylib \<Rightarrow> real list \<Rightarrow> real \<Rightarrow> error + nat" where
  "frqIdx_of L freqs freq =
     (case np_where (map (\<lambda>a. np_isclose L a freq 190000) freqs) of
        [] \<Rightarrow> Inl IndexError
      | i # _ \<Rightarrow> Inr i)"

subsection \<open>Rendering\<close>

datatype pyval = Str string | Float real | Cplx complex

fun py_str :: "'t pylib \<Rightarrow> pyval \<Rightarrow> string" where
  "py_str L (Str s) = s"
| "py_str L (Float x) = str_float L x"
| "py_str L (Cplx z) = str_complex L z"

text \<open>\<^verbatim>\<open>delimiter.join(tokens)\<close>.\<close>

fun join :: "string \<Rightarrow> string list \<Rightarrow> string" where
  "join d [] = []"
| "join d [s] = s"
| "join d (s # t # ts) = s @ d @ join d (t # ts)"

subsection \<open>The Jones tensor\<close>

text \<open>
  One 2x2 Jones matrix, and the tensor \<^verbatim>\<open>Jn[fi, ti, :, :]\<close> as a list (over
  frequency) of lists (over time) of matrices.
\<close>

datatype jones = Jones (j00: complex) (j01: complex) (j10: complex) (j11: complex)

type_synonym tensor = "jones list list"

text \<open>
  \<^verbatim>\<open>Jn[frqIdx, :, :, :].squeeze()\<close>: the slice has shape (N, 2, 2), and
  \<^verbatim>\<open>squeeze\<close> drops every axis of length one, so a slice with a single time
  sample becomes a two-dimensional array.
\<close>

datatype slice = Arr3 "jones list" | Arr2 jones

fun squeeze :: "jones list \<Rightarrow> slice" where
  "squeeze [m] = Arr2 m"
| "squeeze ms = Arr3 ms"

definition slice_Jn :: "tensor \<Rightarrow> nat \<Rightarrow> error + slice" where
  "slice_Jn Jn frqIdx =
     (if frqIdx < length Jn then Inr (squeeze (Jn ! frqIdx)) else Inl IndexError)"

text \<open>
  \<^verbatim>\<open>Jnf[ti, a, b]\<close>: three indices into a two-dimensional array raise IndexError
  (too many indices), as does a time index beyond the slice.
\<close>

fun Jnf_at :: "slice \<Rightarrow> nat \<Rightarrow> error + jones" where
  "Jnf_at (Arr2 m) ti = Inl IndexError"
| "Jnf_at (Arr3 ms) ti = (if ti < length ms then Inr (ms ! ti) else Inl IndexError)"

text \<open>\<^verbatim>\<open>Jn[fi, ti, a, b]\<close>.\<close>

definition Jn_at :: "tensor \<Rightarrow> nat \<Rightarrow> nat \<Rightarrow> error + jones" where
  "Jn_at Jn fi ti =
     (if fi < length Jn \<and> ti < length (Jn ! fi) then Inr (Jn ! fi ! ti) else Inl IndexError)"

subsection \<open>Output\<close>

text \<open>
  What a run does to the outside world, in order: the lines it prints and the plotting
  calls it makes. A run is the list of its effects with the exception that ended it, if
  any.
\<close>

datatype effect = Print string | Display_pointings | Plot_Jones_freq | Plot_all_Jones

type_synonym run = "effect list \<times> error option"

text \<open>
  The bodies of a printing loop, in order: each either raises or yields the line it
  prints. The loop prints until the first body that raises.
\<close>

fun print_each :: "(error + string) list \<Rightarrow> run" where
  "print_each [] = ([], None)"
| "print_each (Inl e # rest) = ([], Some e)"
| "print_each (Inr s # rest) = (case print_each rest of (out, r) \<Rightarrow> (Print s # out, r))"

definition after :: "effect list \<Rightarrow> run \<Rightarrow> run" where
  "after pre r = (pre @ fst r, snd r)"

subsubsection \<open>printJonesFreq\<close>

definition jones_1f_outstring :: "'t pylib \<Rightarrow> 't \<Rightarrow> real \<Rightarrow> jones \<Rightarrow> string" where
  "jones_1f_outstring L t freq J =
     join '','' (map (py_str L)
       [Str (isoformat L t), Float freq,
        Cplx (j00 J), Cplx (j01 J), Cplx (j10 J), Cplx (j11 J)])"

definition printJonesFreq ::
  "'t pylib \<Rightarrow> 't list \<Rightarrow> slice \<Rightarrow> real \<Rightarrow> run" where
  "printJonesFreq L timespy Jnf freq =
     after [Print ''Time, Freq, J11, J12, J21, J22'']
       (print_each (map (\<lambda>ti. case Jnf_at Jnf ti of
                                  Inl e \<Rightarrow> Inl e
                                | Inr J \<Rightarrow> Inr (jones_1f_outstring L (timespy ! ti) freq J))
                        [0..<length timespy]))"

subsubsection \<open>printAllJones\<close>

definition paccompf :: "'t pylib \<Rightarrow> complex \<Rightarrow> string" where
  "paccompf L Jij = str_float L (Re Jij) @ '' '' @ str_float L (Im Jij)"

text \<open>
  One body of the inner loop. With a format that is neither \<^verbatim>\<open>csv\<close> nor
  \<^verbatim>\<open>pac\<close> the name \<^verbatim>\<open>delimiter\<close> is unbound at the join.
\<close>

definition jones_nf_outstring ::
  "'t pylib \<Rightarrow> string \<Rightarrow> 't \<Rightarrow> real \<Rightarrow> jones \<Rightarrow> error + string" where
  "jones_nf_outstring L frmt t freq J =
     (if frmt = ''csv'' then
        Inr (join '','' (map (py_str L)
          [Str (isoformat L t), Float freq,
           Cplx (j00 J), Cplx (j01 J), Cplx (j10 J), Cplx (j11 J)]))
      else if frmt = ''pac'' then
        Inr (join '' '' (map (py_str L)
          [Float (quantity_value L (isoformat L t)), Float freq,
           Str (paccompf L (j00 J)), Str (paccompf L (j01 J)),
           Str (paccompf L (j10 J)), Str (paccompf L (j11 J))]))
      else Inl UnboundLocalError)"

definition printAllJones ::
  "'t pylib \<Rightarrow> 't list \<Rightarrow> real list \<Rightarrow> tensor \<Rightarrow> string \<Rightarrow> run" where
  "printAllJones L timespy freqs Jn frmt =
     after (if frmt = ''csv'' then [Print ''Time, Freq, J00, J01, J10, J11''] else [])
       (print_each (concat (map (\<lambda>ti. map (\<lambda>fi.
            case Jn_at Jn fi ti of
              Inl e \<Rightarrow> Inl e
            | Inr J \<Rightarrow> jones_nf_outstring L frmt (timespy ! ti) (freqs ! fi) J)
          [0..<length freqs]) [0..<length timespy])))"

subsubsection \<open>plotJonesFreq\<close>

text \<open>
  \<^verbatim>\<open>Jnf[:, 0, 0]\<close> on a slice that \<^verbatim>\<open>squeeze\<close> has made two-dimensional raises
  IndexError before anything is drawn. Otherwise the two channels have one value per
  matrix of the slice, and \<^verbatim>\<open>plt.plot(timespy, p_ch)\<close> raises ValueError unless
  there are as many time samples; the effect recorded is the figure shown by
  \<^verbatim>\<open>plt.show()\<close>.
\<close>

definition plotJonesFreq :: "'t list \<Rightarrow> slice \<Rightarrow> run" where
  "plotJonesFreq timespy Jnf =
     (case Jnf of
        Arr2 m \<Rightarrow> ([], Some IndexError)
      | Arr3 ms \<Rightarrow>
          if length ms = length timespy then ([Plot_Jones_freq], None)
          else ([], Some (ValueError Shape_mismatch)))"

subsubsection \<open>main\<close>

text \<open>
  \<^verbatim>\<open>main\<close> from the point where \<^verbatim>\<open>on_pointing_axis_tracking\<close> has returned
  \<^verbatim>\<open>timespy, freqs, Jn\<close>. The selection of the frequency index is the argument
  \<open>sel\<close>, so that a statement can say what does not depend on it; \<open>main\<close> itself
  runs with \<open>frqIdx_of\<close>.

  Line 115 reads \<^verbatim>\<open>freqs[0]\<close> whatever \<^verbatim>\<open>freq\<close> is; with \<^verbatim>\<open>freq = None\<close>
  the comparison \<^verbatim>\<open>None < freqs[0]\<close> holds and \<^verbatim>\<open>freq is not None\<close> fails, so
  nothing is raised.
\<close>

definition main_with ::
  "(real list \<Rightarrow> real \<Rightarrow> error + nat) \<Rightarrow> 't pylib \<Rightarrow>
   't list \<times> real list \<times> tensor \<Rightarrow> string \<Rightarrow> real option \<Rightarrow> string \<Rightarrow> string \<Rightarrow> run" where
  "main_with sel L grid band freq action frmt =
     (case grid of (timespy, freqs, Jn) \<Rightarrow>
      if freqs = [] then ([], Some IndexError)
      else if (case freq of None \<Rightarrow> False | Some f \<Rightarrow> f < hd freqs \<or> f > last freqs)
        then ([], Some (ValueError (Outside_of_band (the freq) band)))
      else
        after (if action = ''plot'' then [Display_pointings] else [])
          (case freq of
             None \<Rightarrow>
               if action = ''plot'' then ([Plot_all_Jones], None)
               else printAllJones L timespy freqs Jn frmt
           | Some f \<Rightarrow>
               (case sel freqs f of
                  Inl e \<Rightarrow> ([], Some e)
                | Inr frqIdx \<Rightarrow>
                    (case slice_Jn Jn frqIdx of
                       Inl e \<Rightarrow> ([], Some e)
                     | Inr Jnf \<Rightarrow>
                         if action = ''plot'' then plotJonesFreq timespy Jnf
                         else printJonesFreq L timespy Jnf f))))"

definition main ::
  "'t pylib \<Rightarrow> 't list \<times> real list \<times> tensor \<Rightarrow> string \<Rightarrow> real option \<Rightarrow>
   string \<Rightarrow> string \<Rightarrow> run" where
  "main L = main_with (frqIdx_of L) L"

subsection \<open>Station geometry (geometry\_ingest.py)\<close>

text \<open>
  The files under the package directory. \<^verbatim>\<open>np.loadtxt\<close> is a library function,
  outside the repository: the model takes a file as the table \<^verbatim>\<open>loadtxt\<close> reads
  from it, either rows with the fields of \<^verbatim>\<open>CASA_CFG_DTYPE\<close> (the name as written
  in the file), or a numeric file, given by the array \<^verbatim>\<open>loadtxt\<close> returns for it
  (the code hands that array on as it is), or text that is neither.
\<close>

record cfg_row =
  X :: real
  Y :: real
  Z :: real
  Diam :: real
  Name :: string

datatype 'm content = Cfg_text "cfg_row list" | Matrix_text 'm | Other_text

record 'm env =
  SIMOBS_PATH :: string
  disk :: "string \<rightharpoonup> 'm content"

text \<open>\<^verbatim>\<open>os.path.join(a, *p)\<close> of \<^verbatim>\<open>posixpath\<close>.\<close>

fun os_path_join :: "string \<Rightarrow> string list \<Rightarrow> string" where
  "os_path_join path [] = path"
| "os_path_join path (b # p) =
     os_path_join
       (if b \<noteq> [] \<and> hd b = CHR ''/'' then b
        else if path = [] \<or> last path = CHR ''/'' then path @ b
        else path @ ''/'' @ b) p"

text \<open>\<^verbatim>\<open>str\<close> of a band argument, which is a string or \<^verbatim>\<open>None\<close>.\<close>

fun str_band :: "string option \<Rightarrow> string" where
  "str_band None = ''None''"
| "str_band (Some b) = b"

definition arrcfg_file :: "'m env \<Rightarrow> string \<Rightarrow> string option \<Rightarrow> string" where
  "arrcfg_file E telescope band =
     (let arrcfg_folder = os_path_join (SIMOBS_PATH E) [telescope, ''share/simmos'']
      in os_path_join arrcfg_folder [telescope @ ''_'' @ str_band band @ ''.cfg''])"

definition stnrot_file :: "'m env \<Rightarrow> string \<Rightarrow> string \<Rightarrow> string option \<Rightarrow> string" where
  "stnrot_file E telescope stnid band =
     (let stnrot_folder = os_path_join (SIMOBS_PATH E) [telescope, ''share/alignment'']
      in os_path_join stnrot_folder [stnid @ ''_'' @ str_band band @ ''.txt''])"

text \<open>
  \<^verbatim>\<open>CASA_CFG_DTYPE\<close> gives the name column the type \<^verbatim>\<open>S5\<close>: numpy keeps the
  first five characters of each name.
\<close>

definition S5 :: "string \<Rightarrow> string" where
  "S5 s = take 5 s"

text \<open>
  \<^verbatim>\<open>np.loadtxt(..., unpack=True)\<close> returns one array per field, and it squeezes its
  result first: a file of exactly one row gives zero-dimensional arrays, any other number
  of rows (none included) one-dimensional arrays with one entry per row.
\<close>

datatype 'a ndarray = Arr0 'a | Arr1 "'a list"

definition column :: "('r \<Rightarrow> 'a) \<Rightarrow> 'r list \<Rightarrow> 'a ndarray" where
  "column field rows = (case rows of [r] \<Rightarrow> Arr0 (field r) | _ \<Rightarrow> Arr1 (map field rows))"

type_synonym arrcfg =
  "real ndarray \<times> real ndarray \<times> real ndarray \<times> real ndarray \<times> string ndarray"

definition readarrcfg :: "'m env \<Rightarrow> string \<Rightarrow> string option \<Rightarrow> error + arrcfg" where
  "readarrcfg E telescope band =
     (case disk E (arrcfg_file E telescope band) of
        None \<Rightarrow> Inl IOError
      | Some (Cfg_text rows) \<Rightarrow>
          Inr (column X rows, column Y rows, column Z rows, column Diam rows,
               column (\<lambda>r. S5 (Name r)) rows)
      | Some _ \<Rightarrow> Inl (ValueError Could_not_convert))"

definition readalignment ::
  "'m env \<Rightarrow> string \<Rightarrow> string \<Rightarrow> string option \<Rightarrow> error + 'm" where
  "readalignment E telescope stnid band =
     (case disk E (stnrot_file E telescope stnid band) of
        None \<Rightarrow> Inl IOError
      | Some (Matrix_text stnrot) \<Rightarrow> Inr stnrot
      | Some _ \<Rightarrow> Inl (ValueError Could_not_convert))"

text \<open>\<^verbatim>\<open>list.index(x)\<close>: the first position of \<open>x\<close>, or no position.\<close>

fun list_index :: "'a list \<Rightarrow> 'a \<Rightarrow> nat option" where
  "list_index [] a = None"
| "list_index (x # xs) a = (if x = a then Some 0 else map_option Suc (list_index xs a))"

text \<open>\<^verbatim>\<open>str.index(sub)\<close>: the first position at which \<open>sub\<close> occurs in the string.\<close>

fun str_index :: "string \<Rightarrow> string \<Rightarrow> nat option" where
  "str_index [] sub = (if sub = [] then Some 0 else None)"
| "str_index (c # s) sub =
     (if take (length sub) (c # s) = sub then Some 0 else map_option Suc (str_index s sub))"

text \<open>
  \<^verbatim>\<open>names.tolist().index(stnid)\<close>: \<^verbatim>\<open>tolist\<close> of a one-dimensional array is a
  list, and \<^verbatim>\<open>tolist\<close> of a zero-dimensional array of strings is the string itself,
  whose \<^verbatim>\<open>index\<close> searches for a substring.
\<close>

fun tolist_index :: "string ndarray \<Rightarrow> string \<Rightarrow> error + nat" where
  "tolist_index (Arr1 names) stnid =
     (case list_index names stnid of
        None \<Rightarrow> Inl (ValueError (Not_in_list stnid))
      | Some i \<Rightarrow> Inr i)"
| "tolist_index (Arr0 name) stnid =
     (case str_index name stnid of
        None \<Rightarrow> Inl (ValueError Substring_not_found)
      | Some i \<Rightarrow> Inr i)"

text \<open>\<^verbatim>\<open>x[i]\<close>: a zero-dimensional array cannot be indexed.\<close>

fun getitem :: "'a ndarray \<Rightarrow> nat \<Rightarrow> error + 'a" where
  "getitem (Arr0 a) i = Inl IndexError"
| "getitem (Arr1 xs) i = (if i < length xs then Inr (xs ! i) else Inl IndexError)"

definition getArrayBandParams ::
  "'m env \<Rightarrow> string \<Rightarrow> string \<Rightarrow> string option \<Rightarrow> error + (real list \<times> 'm)" where
  "getArrayBandParams E telescope stnid band =
     (case readarrcfg E telescope band of
        Inl e \<Rightarrow> Inl e
      | Inr (x, y, z, diam, names) \<Rightarrow>
          (case tolist_index names stnid of
             Inl e \<Rightarrow> Inl e
           | Inr stnid_idx \<Rightarrow>
               (case getitem x stnid_idx of
                  Inl e \<Rightarrow> Inl e
                | Inr xi \<Rightarrow>
                    (case getitem y stnid_idx of
                       Inl e \<Rightarrow> Inl e
                     | Inr yi \<Rightarrow>
                         (case getitem z stnid_idx of
                            Inl e \<Rightarrow> Inl e
                          | Inr zi \<Rightarrow>
                              (case readalignment E telescope stnid band of
                                 Inl e \<Rightarrow> Inl e
                               | Inr stnRot \<Rightarrow> Inr ([xi, yi, zi], stnRot)))))))"

definition list_stations ::
  "'m env \<Rightarrow> string \<Rightarrow> string option \<Rightarrow> error + string ndarray" where
  "list_stations E telescope band =
     (case readarrcfg E telescope band of
        Inl e \<Rightarrow> Inl e
      | Inr (x, y, z, diam, names) \<Rightarrow> Inr names)"

subsection \<open>Reading a row back\<close>

text \<open>
  \<^verbatim>\<open>row.split(c)\<close> for a one-character separator: the fields of a printed row as a
  consumer of the output sees them.
\<close>

fun split_on :: "char \<Rightarrow> string \<Rightarrow> string list" where
  "split_on c [] = [[]]"
| "split_on c (x # xs) =
     (if x = c then [] # split_on c xs
      else (case split_on c xs of
              [] \<Rightarrow> [[x]]
            | w # ws \<Rightarrow> (x # w) # ws))"

subsection \<open>Sample data\<close>

text \<open>
  A rendering library, a tensor with two channels and two time samples, and two package
  directories, used where a statement is evaluated at a concrete input. Time samples are
  numbered; the renderings are those Python gives for the values that occur, and the
  closeness test is the exact one, which the floating-point test agrees with at the
  values that occur (they lie hundreds of Hz away from the bound).
\<close>

definition demo_lib :: "nat pylib" where
  "demo_lib =
     \<lparr>str_float = (\<lambda>x. if x = 100190001 then ''100190001.0''
                        else if x = 100000000 then ''100000000.0''
                        else if x = 101000000 then ''101000000.0''
                        else if x = 56018 then ''56018.0''
                        else if x = 1 then ''1.0'' else ''0.0''),
      str_complex = (\<lambda>z. if z = 1 then ''(1+0j)'' else ''0j''),
      isoformat = (\<lambda>t. if t = 0 then ''2012-04-01T01:02:03'' else ''2012-04-01T01:02:04''),
      quantity_value = (\<lambda>s. 56018),
      np_isclose = (\<lambda>a b atol. \<bar>a - b\<bar> \<le> atol + rtol * \<bar>b\<bar>)\<rparr>"

definition demo_Jn :: tensor where
  "demo_Jn = [[Jones 1 0 0 1, Jones 1 0 0 1], [Jones 0 1 1 0, Jones 0 1 1 0]]"

definition demo_rows :: "cfg_row list" where
  "demo_rows =
     [\<lparr>X = 3826577, Y = 461023, Z = 5064893, Diam = 0, Name = ''CS002''\<rparr>,
      \<lparr>X = 3370272, Y = 712125, Z = 5349991, Diam = 0, Name = ''SE607''\<rparr>,
      \<lparr>X = 1, Y = 2, Z = 3, Diam = 0, Name = ''SE607''\<rparr>]"

definition demo_env :: "real list list env" where
  "demo_env =
     \<lparr>SIMOBS_PATH = ''/opt/dreambeam/telescopes'',
      disk = [''/opt/dreambeam/telescopes/LOFAR/share/simmos/LOFAR_HBA.cfg'' \<mapsto>
                Cfg_text demo_rows,
              ''/opt/dreambeam/telescopes/LOFAR/share/alignment/SE607_HBA.txt'' \<mapsto>
                Matrix_text [[1, 0, 0], [0, 1, 0], [0, 0, 1]]]\<rparr>"

definition demo_env_None :: "real list list env" where
  "demo_env_None =
     \<lparr>SIMOBS_PATH = ''/opt/dreambeam/telescopes'',
      disk = [''/opt/dreambeam/telescopes/LOFAR/share/simmos/LOFAR_None.cfg'' \<mapsto>
                Cfg_text demo_rows]\<rparr>"

definition demo_env_one :: "real list list env" where
  "demo_env_one =
     \<lparr>SIMOBS_PATH = ''/opt/dreambeam/telescopes'',
      disk = [''/opt/dreambeam/telescopes/LOFAR/share/simmos/LOFAR_HBA.cfg'' \<mapsto>
                Cfg_text [\<lparr>X = 3370272, Y = 712125, Z = 5349991, Diam = 0, Name = ''SE607''\<rparr>],
              ''/opt/dreambeam/telescopes/LOFAR/share/alignment/SE607_HBA.txt'' \<mapsto>
                Matrix_text [[1, 0, 0], [0, 1, 0], [0, 0, 1]]]\<rparr>"

section \<open>Properties\<close>

subsection \<open>The first accepted index\<close>

lemma np_where_Nil: "np_where bs = [] \<longleftrightarrow> (\<forall>i<length bs. \<not> bs ! i)"
  by (auto simp: np_where_def filter_empty_conv)

lemma np_where_Cons:
  assumes "np_where bs = i # rest"
  shows "i < length bs \<and> bs ! i \<and> (\<forall>k<i. \<not> bs ! k)"
proof -
  from assms obtain us vs where
    split: "[0..<length bs] = us @ i # vs" and
    before: "\<forall>u\<in>set us. \<not> bs ! u" and here: "bs ! i"
    unfolding np_where_def filter_eq_Cons_iff by blast
  have len: "length us < length bs"
    using arg_cong [OF split, of length] by simp
  have "[0..<length bs] ! length us = i"
    by (simp add: split)
  with len have i: "i = length us" by simp
  have "\<not> bs ! k" if "k < i" for k
  proof -
    have "us ! k = [0..<length bs] ! k"
      using that i by (simp add: split nth_append)
    also have "\<dots> = k" using that i len by simp
    finally have "k \<in> set us" using that i by (metis nth_mem)
    with before show ?thesis by blast
  qed
  with i len here show ?thesis by blast
qed

lemma frqIdx_of_Inl:
  "frqIdx_of L freqs f = Inl e \<longleftrightarrow>
     e = IndexError \<and> (\<forall>k<length freqs. \<not> np_isclose L (freqs ! k) f 190000)"
proof (cases "np_where (map (\<lambda>a. np_isclose L a f 190000) freqs)")
  case Nil
  then show ?thesis
    using np_where_Nil [of "map (\<lambda>a. np_isclose L a f 190000) freqs"]
    by (auto simp: frqIdx_of_def)
next
  case (Cons i rest)
  from np_where_Cons [OF Cons] show ?thesis
    using Cons by (auto simp: frqIdx_of_def)
qed

lemma frqIdx_of_Inr:
  "frqIdx_of L freqs f = Inr i \<longleftrightarrow>
     i < length freqs \<and> np_isclose L (freqs ! i) f 190000 \<and>
     (\<forall>k<i. \<not> np_isclose L (freqs ! k) f 190000)"
proof (cases "np_where (map (\<lambda>a. np_isclose L a f 190000) freqs)")
  case Nil
  then show ?thesis
    using np_where_Nil [of "map (\<lambda>a. np_isclose L a f 190000) freqs"]
    by (auto simp: frqIdx_of_def)
next
  case (Cons j rest)
  from np_where_Cons [OF Cons]
  have j: "j < length freqs" "np_isclose L (freqs ! j) f 190000"
    "\<forall>k<j. \<not> np_isclose L (freqs ! k) f 190000"
    by auto
  have "frqIdx_of L freqs f = Inr j"
    using Cons by (simp add: frqIdx_of_def)
  moreover have "i = j"
    if "i < length freqs" "np_isclose L (freqs ! i) f 190000"
       "\<forall>k<i. \<not> np_isclose L (freqs ! k) f 190000"
    using that j by (meson linorder_neqE_nat)
  ultimately show ?thesis using j by auto
qed

lemma frqIdx_of_first:
  assumes "i < length freqs" and "np_isclose L (freqs ! i) f 190000"
  shows "\<exists>j\<le>i. frqIdx_of L freqs f = Inr j"
proof -
  let ?P = "\<lambda>k. k < length freqs \<and> np_isclose L (freqs ! k) f 190000"
  from assms have "\<exists>k. ?P k" by blast
  then obtain j where j: "?P j" and least: "\<forall>k<j. \<not> ?P k"
    using exists_least_iff [of ?P] by blast
  have "j \<le> i"
    using assms least by (meson not_le)
  moreover have "frqIdx_of L freqs f = Inr j"
    using j least by (auto simp: frqIdx_of_Inr)
  ultimately show ?thesis by blast
qed

subsection \<open>What the contract of np.isclose gives\<close>

lemma contract_accept:
  "float64_isclose close \<Longrightarrow> \<bar>a - b\<bar> \<le> (190000 + rtol * \<bar>b\<bar>) * (1 - slack) \<Longrightarrow>
   close a b 190000"
  unfolding float64_isclose_def by blast

lemma contract_bound:
  "float64_isclose close \<Longrightarrow> close a b 190000 \<Longrightarrow>
   \<bar>a - b\<bar> \<le> (190000 + rtol * \<bar>b\<bar>) * (1 + slack)"
  unfolding float64_isclose_def by blast



lemma demo_contract: "float64_isclose (np_isclose demo_lib)"
proof -
  have "\<bar>a - b\<bar> \<le> 190000 + rtol * \<bar>b\<bar>"
    if "\<bar>a - b\<bar> \<le> (190000 + rtol * \<bar>b\<bar>) * (1 - slack)" for a b :: real
  proof -
    have "0 \<le> 190000 + rtol * \<bar>b\<bar>" by (simp add: rtol_def)
    then have "(190000 + rtol * \<bar>b\<bar>) * (1 - slack) \<le> 190000 + rtol * \<bar>b\<bar>"
      by (simp add: slack_def mult_left_le)
    with that show ?thesis by simp
  qed
  moreover have "\<bar>a - b\<bar> \<le> (190000 + rtol * \<bar>b\<bar>) * (1 + slack)"
    if "\<bar>a - b\<bar> \<le> 190000 + rtol * \<bar>b\<bar>" for a b :: real
  proof -
    have "0 \<le> 190000 + rtol * \<bar>b\<bar>" by (simp add: rtol_def)
    then have "190000 + rtol * \<bar>b\<bar> \<le> (190000 + rtol * \<bar>b\<bar>) * (1 + slack)"
      by (simp add: slack_def mult_le_cancel_left1)
    with that show ?thesis by simp
  qed
  ultimately show ?thesis
    by (simp add: float64_isclose_def demo_lib_def)
qed

subsection \<open>The paths through main\<close>

lemma main_with_outside:
  assumes "freqs \<noteq> []" and "f < hd freqs \<or> last freqs < f"
  shows "main_with sel L (timespy, freqs, Jn) band (Some f) action frmt =
           ([], Some (ValueError (Outside_of_band f band)))"
  using assms by (simp add: main_with_def)

lemma main_with_print_pinned:
  assumes "freqs \<noteq> []" and "hd freqs \<le> f" and "f \<le> last freqs" and "action \<noteq> ''plot''"
  shows "main_with sel L (timespy, freqs, Jn) band (Some f) action frmt =
           (case sel freqs f of
              Inl e \<Rightarrow> ([], Some e)
            | Inr frqIdx \<Rightarrow>
                (case slice_Jn Jn frqIdx of
                   Inl e \<Rightarrow> ([], Some e)
                 | Inr Jnf \<Rightarrow> printJonesFreq L timespy Jnf f))"
  using assms by (simp add: main_with_def after_def split: sum.splits)

lemma main_print_resolved:
  assumes "freqs \<noteq> []" and "hd freqs \<le> f" and "f \<le> last freqs"
    and "frqIdx_of L freqs f = Inr i"
  shows "main L (timespy, freqs, Jn) band (Some f) ''print'' frmt =
           (case slice_Jn Jn i of
              Inl e \<Rightarrow> ([], Some e)
            | Inr Jnf \<Rightarrow> printJonesFreq L timespy Jnf f)"
  unfolding main_def
  using main_with_print_pinned [OF assms(1-3), of "''print''" "frqIdx_of L"]
  by (simp add: assms(4))

lemma in_set_conv_close:
  "(\<exists>a\<in>set freqs. np_isclose L a f 190000) \<longleftrightarrow>
   (\<exists>k<length freqs. np_isclose L (freqs ! k) f 190000)"
  by (metis in_set_conv_nth)

lemma resolves_first:
  assumes band: "freqs \<noteq> []" "hd freqs \<le> f" "f \<le> last freqs"
    and i: "i < length freqs" "np_isclose L (freqs ! i) f 190000"
  shows "\<exists>j\<le>i. frqIdx_of L freqs f = Inr j \<and>
           (j = i \<longleftrightarrow> (\<forall>k<i. \<not> np_isclose L (freqs ! k) f 190000)) \<and>
           main L (timespy, freqs, Jn) band (Some f) ''print'' frmt =
             (case slice_Jn Jn j of
                Inl e \<Rightarrow> ([], Some e)
              | Inr Jnf \<Rightarrow> printJonesFreq L timespy Jnf f)"
proof -
  from frqIdx_of_first [OF i] obtain j where j: "j \<le> i" "frqIdx_of L freqs f = Inr j"
    by blast
  have "j = i \<longleftrightarrow> (\<forall>k<i. \<not> np_isclose L (freqs ! k) f 190000)"
    using j i frqIdx_of_Inr [of L freqs f j] frqIdx_of_Inr [of L freqs f i]
    by (metis le_neq_implies_less)
  with j main_print_resolved [OF band j(2)] show ?thesis by blast
qed

lemma frqIdx_of_first_not_closest:
  assumes "float64_isclose (np_isclose L)"
  shows "frqIdx_of L [100000000, 100100000, 100200000] 100150000 = Inr 0"
proof -
  have "np_isclose L 100000000 100150000 190000"
    by (rule contract_accept [OF assms]) (simp add: rtol_def slack_def)
  then show ?thesis by (simp add: frqIdx_of_Inr)
qed

lemma frqIdx_of_beyond_190000:
  assumes "float64_isclose (np_isclose L)"
  shows "frqIdx_of L [100000000, 100390000] 100190500 = Inr 0"
proof -
  have "np_isclose L 100000000 100190500 190000"
    by (rule contract_accept [OF assms]) (simp add: rtol_def slack_def)
  then show ?thesis by (simp add: frqIdx_of_Inr)
qed

lemma frqIdx_of_own_not_self:
  assumes "float64_isclose (np_isclose L)"
  shows "frqIdx_of L [100000000, 100100000, 100200000]
           ([100000000, 100100000, 100200000] ! 1) = Inr 0"
proof -
  have "np_isclose L 100000000 100100000 190000"
    by (rule contract_accept [OF assms]) (simp add: rtol_def slack_def)
  then show ?thesis by (simp add: frqIdx_of_Inr)
qed

lemma frqIdx_of_190001_same:
  assumes "float64_isclose (np_isclose L)"
  shows "frqIdx_of L [100000000, 101000000] ([100000000, 101000000] ! 0 + 190001) = Inr 0"
proof -
  have "np_isclose L 100000000 100190001 190000"
    by (rule contract_accept [OF assms]) (simp add: rtol_def slack_def)
  then show ?thesis by (simp add: frqIdx_of_Inr)
qed

subsection \<open>Claims on frequency selection\<close>

text \<open>
  C1 (as amended). For a requested frequency \<open>f\<close> inside the band
  (\<open>freqs[0] \<le> f \<le> freqs[-1]\<close>) for which \<^verbatim>\<open>np.isclose\<close> accepts some channel,
  the selected index is the first accepted index of the axis, not the closest channel, and
  the print action prints the slice at that index. The test accepts every channel within
  \<open>(190000 + 1e-5 * |f|) * (1 - slack)\<close> of \<open>f\<close>, and an accepted channel lies within
  \<open>(190000 + 1e-5 * |f|) * (1 + slack)\<close>: the tolerance is the absolute one plus
  numpy's default relative one.
\<close>

theorem frqIdx_of_in_band:
  assumes "float64_isclose (np_isclose L)"
    and "freqs \<noteq> []" and "hd freqs \<le> f" and "f \<le> last freqs"
  shows "((\<exists>a\<in>set freqs. \<bar>a - f\<bar> \<le> (190000 + rtol * \<bar>f\<bar>) * (1 - slack)) \<longrightarrow>
            (\<exists>a\<in>set freqs. np_isclose L a f 190000)) \<and>
         ((\<exists>a\<in>set freqs. np_isclose L a f 190000) \<longrightarrow>
            (\<exists>i<length freqs. frqIdx_of L freqs f = Inr i \<and>
               np_isclose L (freqs ! i) f 190000 \<and>
               \<bar>freqs ! i - f\<bar> \<le> (190000 + rtol * \<bar>f\<bar>) * (1 + slack) \<and>
               (\<forall>k<i. \<not> np_isclose L (freqs ! k) f 190000) \<and>
               main L (timespy, freqs, Jn) band (Some f) ''print'' frmt =
                 (case slice_Jn Jn i of
                    Inl e \<Rightarrow> ([], Some e)
                  | Inr Jnf \<Rightarrow> printJonesFreq L timespy Jnf f)))"
proof (intro conjI impI)
  assume "\<exists>a\<in>set freqs. \<bar>a - f\<bar> \<le> (190000 + rtol * \<bar>f\<bar>) * (1 - slack)"
  then show "\<exists>a\<in>set freqs. np_isclose L a f 190000"
    using contract_accept [OF assms(1)] by blast
next
  assume "\<exists>a\<in>set freqs. np_isclose L a f 190000"
  then obtain k where "k < length freqs" and "np_isclose L (freqs ! k) f 190000"
    unfolding in_set_conv_close by blast
  from frqIdx_of_first [OF this] obtain i where i: "frqIdx_of L freqs f = Inr i" by blast
  then have fst: "i < length freqs" "np_isclose L (freqs ! i) f 190000"
    "\<forall>k<i. \<not> np_isclose L (freqs ! k) f 190000"
    by (simp_all add: frqIdx_of_Inr)
  note contract_bound [OF assms(1) fst(2)] main_print_resolved [OF assms(2-4) i]
  with i fst
  show "\<exists>i<length freqs. frqIdx_of L freqs f = Inr i \<and>
               np_isclose L (freqs ! i) f 190000 \<and>
               \<bar>freqs ! i - f\<bar> \<le> (190000 + rtol * \<bar>f\<bar>) * (1 + slack) \<and>
               (\<forall>k<i. \<not> np_isclose L (freqs ! k) f 190000) \<and>
               main L (timespy, freqs, Jn) band (Some f) ''print'' frmt =
                 (case slice_Jn Jn i of
                    Inl e \<Rightarrow> ([], Some e)
                  | Inr Jnf \<Rightarrow> printJonesFreq L timespy Jnf f)"
    by blast
qed

text \<open>
  The claim as stated fails twice. On the axis 100.0, 100.1, 100.2 MHz a request of
  100.15 MHz selects index 0, at 150 kHz, although index 1 is at 50 kHz. On the axis
  100.0, 100.39 MHz a request of 100.1905 MHz has no channel within 190000 Hz and still
  selects index 0. Both selections are the same for every closeness test within the
  contract (\<open>frqIdx_of_first_not_closest\<close>, \<open>frqIdx_of_beyond_190000\<close>).
\<close>

theorem frqIdx_of_in_band_counterexample:
  "frqIdx_of demo_lib [100000000, 100100000, 100200000] 100150000 = Inr 0 \<and>
   \<bar>[100000000, 100100000, 100200000] ! 1 - 100150000\<bar>
     < \<bar>[100000000, 100100000, 100200000] ! 0 - (100150000::real)\<bar> \<and>
   frqIdx_of demo_lib [100000000, 100390000] 100190500 = Inr 0 \<and>
   190000 < \<bar>[100000000, 100390000] ! 0 - (100190500::real)\<bar> \<and>
   190000 < \<bar>[100000000, 100390000] ! 1 - (100190500::real)\<bar>"
  by (simp add: frqIdx_of_def np_where_def demo_lib_def rtol_def)

theorem frqIdx_of_in_band_witness:
  "frqIdx_of demo_lib [100000000, 100100000, 100200000] 100150000 = Inr 0 \<and>
   \<bar>[100000000, 100100000, 100200000] ! 0 - 100150000\<bar>
     \<le> (190000 + rtol * \<bar>100150000\<bar>) * (1 + slack) \<and>
   main demo_lib ([0, 1], [100000000, 100100000, 100200000], demo_Jn) ''HBA''
     (Some 100150000) ''print'' ''csv'' =
     (case slice_Jn demo_Jn 0 of
        Inl e \<Rightarrow> ([], Some e)
      | Inr Jnf \<Rightarrow> printJonesFreq demo_lib [0, 1] Jnf 100150000)"
proof -
  have b: "[100000000, 100100000, 100200000] \<noteq> ([]::real list)"
    "hd [100000000, 100100000, 100200000] \<le> (100150000::real)"
    "(100150000::real) \<le> last [100000000, 100100000, 100200000]"
    by simp_all
  have some: "\<exists>a\<in>set [100000000, 100100000, 100200000].
                \<bar>a - 100150000\<bar> \<le> (190000 + rtol * \<bar>100150000\<bar>) * (1 - slack)"
    by (simp add: rtol_def slack_def)
  note inst = frqIdx_of_in_band [OF demo_contract b, where timespy = "[0, 1]"
      and Jn = demo_Jn and band = "''HBA''" and frmt = "''csv''"]
  from inst [THEN conjunct2, THEN mp, OF inst [THEN conjunct1, THEN mp, OF some]]
  obtain i where i: "frqIdx_of demo_lib [100000000, 100100000, 100200000] 100150000 = Inr i"
    and bound: "\<bar>[100000000, 100100000, 100200000] ! i - 100150000\<bar>
                  \<le> (190000 + rtol * \<bar>100150000\<bar>) * (1 + slack)"
    and first: "\<forall>k<i. \<not> np_isclose demo_lib ([100000000, 100100000, 100200000] ! k) 100150000 190000"
    and run: "main demo_lib ([0, 1], [100000000, 100100000, 100200000], demo_Jn) ''HBA''
                (Some 100150000) ''print'' ''csv'' =
              (case slice_Jn demo_Jn i of
                 Inl e \<Rightarrow> ([], Some e)
               | Inr Jnf \<Rightarrow> printJonesFreq demo_lib [0, 1] Jnf 100150000)"
    by blast
  from first have "i = 0"
    by (cases i) (auto simp: demo_lib_def rtol_def)
  with i bound run show ?thesis by simp
qed

text \<open>
  C2. A requested frequency below \<open>freqs[0]\<close> or above \<open>freqs[-1]\<close> ends the run
  with the ValueError of line 116 and without any output. The run is the same whatever
  the selection of the index would compute (\<open>sel\<close> is arbitrary): the selection is
  not reached.
\<close>

theorem main_outside_band:
  assumes "freqs \<noteq> []" and "f < hd freqs \<or> last freqs < f"
  shows "main_with sel L (timespy, freqs, Jn) band (Some f) action frmt =
           ([], Some (ValueError (Outside_of_band f band))) \<and>
         main L (timespy, freqs, Jn) band (Some f) action frmt =
           ([], Some (ValueError (Outside_of_band f band)))"
  by (simp add: main_def main_with_outside [OF assms])

theorem main_outside_band_witness:
  "main_with (\<lambda>freqs f. Inr 0) demo_lib ([0, 1], [100000000, 101000000], demo_Jn) ''HBA''
     (Some 99999999) ''print'' ''csv'' =
     ([], Some (ValueError (Outside_of_band 99999999 ''HBA''))) \<and>
   main demo_lib ([0, 1], [100000000, 101000000], demo_Jn) ''HBA''
     (Some 101000001) ''print'' ''csv'' =
     ([], Some (ValueError (Outside_of_band 101000001 ''HBA'')))"
proof -
  have ne: "[100000000, 101000000] \<noteq> ([]::real list)" by simp
  have lo: "(99999999::real) < hd [100000000, 101000000] \<or>
            last [100000000, 101000000] < (99999999::real)"
    by simp
  have hi: "(101000001::real) < hd [100000000, 101000000] \<or>
            last [100000000, 101000000] < (101000001::real)"
    by simp
  from main_outside_band [OF ne lo] main_outside_band [OF ne hi]
  show ?thesis by blast
qed




lemma close_near_189999:
  assumes "float64_isclose close" and "\<bar>f - (a + 189999)\<bar> \<le> slack * \<bar>f\<bar>"
  shows "close a f 190000"
proof (rule contract_accept [OF assms(1)])
  have "\<bar>a - f\<bar> \<le> 189999 + slack * \<bar>f\<bar>"
    using assms(2) by linarith
  moreover have "189999 + slack * \<bar>f\<bar> \<le> (190000 + rtol * \<bar>f\<bar>) * (1 - slack)"
    by (simp add: rtol_def slack_def field_simps)
  ultimately show "\<bar>a - f\<bar> \<le> (190000 + rtol * \<bar>f\<bar>) * (1 - slack)"
    by linarith
qed

lemma close_near_190001:
  assumes "float64_isclose close" and "\<bar>f - (a + 190001)\<bar> \<le> slack * \<bar>f\<bar>"
    and "100001 \<le> \<bar>f\<bar>"
  shows "close a f 190000"
proof (rule contract_accept [OF assms(1)])
  have "\<bar>a - f\<bar> \<le> 190001 + slack * \<bar>f\<bar>"
    using assms(2) by linarith
  moreover have "190001 + slack * \<bar>f\<bar> \<le> (190000 + rtol * \<bar>f\<bar>) * (1 - slack)"
    using assms(3) by (simp add: rtol_def slack_def field_simps)
  ultimately show "\<bar>a - f\<bar> \<le> (190000 + rtol * \<bar>f\<bar>) * (1 - slack)"
    by linarith
qed

text \<open>
  C4 (as amended). For every axis, index \<open>i\<close> and requests \<open>lo\<close> and \<open>hi\<close> that are
  \<open>freqs[i] + 189999\<close> and \<open>freqs[i] + 190001\<close> (up to the rounding of the sum): a
  request outside the band (both are above \<open>freqs[-1]\<close> for the last channel) ends the
  run with the range ValueError. Inside the band, \<open>lo\<close> is accepted for channel \<open>i\<close>,
  so the selection succeeds with the first accepted index \<open>j \<le> i\<close>, which is \<open>i\<close>
  exactly when no earlier channel is accepted, and the print action prints the slice at
  \<open>j\<close>. Inside the band, a request \<open>hi\<close> of at least 100001 Hz in absolute value
  (every \<open>hi\<close> of an axis of non-negative frequencies) is accepted for channel \<open>i\<close> as
  well, the tolerance being \<open>190000 + 1e-5 * |hi|\<close>, and resolves in the same way: to
  \<open>i\<close> itself when no earlier channel is accepted.
\<close>

theorem frqIdx_of_near_tolerance:
  assumes "float64_isclose (np_isclose L)" and "i < length freqs"
    and "\<bar>lo - (freqs ! i + 189999)\<bar> \<le> slack * \<bar>lo\<bar>"
    and "\<bar>hi - (freqs ! i + 190001)\<bar> \<le> slack * \<bar>hi\<bar>"
  shows "(lo < hd freqs \<or> last freqs < lo \<longrightarrow>
            main L (timespy, freqs, Jn) band (Some lo) action frmt =
              ([], Some (ValueError (Outside_of_band lo band)))) \<and>
         (hi < hd freqs \<or> last freqs < hi \<longrightarrow>
            main L (timespy, freqs, Jn) band (Some hi) action frmt =
              ([], Some (ValueError (Outside_of_band hi band)))) \<and>
         (hd freqs \<le> lo \<and> lo \<le> last freqs \<longrightarrow>
            (\<exists>j\<le>i. frqIdx_of L freqs lo = Inr j \<and>
               (j = i \<longleftrightarrow> (\<forall>k<i. \<not> np_isclose L (freqs ! k) lo 190000)) \<and>
               main L (timespy, freqs, Jn) band (Some lo) ''print'' frmt =
                 (case slice_Jn Jn j of
                    Inl e \<Rightarrow> ([], Some e)
                  | Inr Jnf \<Rightarrow> printJonesFreq L timespy Jnf lo))) \<and>
         (hd freqs \<le> hi \<and> hi \<le> last freqs \<and> 100001 \<le> \<bar>hi\<bar> \<longrightarrow>
            (\<exists>j\<le>i. frqIdx_of L freqs hi = Inr j \<and>
               (j = i \<longleftrightarrow> (\<forall>k<i. \<not> np_isclose L (freqs ! k) hi 190000)) \<and>
               main L (timespy, freqs, Jn) band (Some hi) ''print'' frmt =
                 (case slice_Jn Jn j of
                    Inl e \<Rightarrow> ([], Some e)
                  | Inr Jnf \<Rightarrow> printJonesFreq L timespy Jnf hi)))"
proof (intro conjI impI)
  from assms(2) have ne: "freqs \<noteq> []" by auto
  {
    assume "lo < hd freqs \<or> last freqs < lo"
    then show "main L (timespy, freqs, Jn) band (Some lo) action frmt =
                 ([], Some (ValueError (Outside_of_band lo band)))"
      unfolding main_def by (rule main_with_outside [OF ne])
  }
  {
    assume "hi < hd freqs \<or> last freqs < hi"
    then show "main L (timespy, freqs, Jn) band (Some hi) action frmt =
                 ([], Some (ValueError (Outside_of_band hi band)))"
      unfolding main_def by (rule main_with_outside [OF ne])
  }
  {
    assume band: "hd freqs \<le> lo \<and> lo \<le> last freqs"
    note close_near_189999 [OF assms(1,3)]
    from resolves_first [OF ne band [THEN conjunct1] band [THEN conjunct2] assms(2) this]
    show "\<exists>j\<le>i. frqIdx_of L freqs lo = Inr j \<and>
               (j = i \<longleftrightarrow> (\<forall>k<i. \<not> np_isclose L (freqs ! k) lo 190000)) \<and>
               main L (timespy, freqs, Jn) band (Some lo) ''print'' frmt =
                 (case slice_Jn Jn j of
                    Inl e \<Rightarrow> ([], Some e)
                  | Inr Jnf \<Rightarrow> printJonesFreq L timespy Jnf lo)" .
  }
  {
    assume band: "hd freqs \<le> hi \<and> hi \<le> last freqs \<and> 100001 \<le> \<bar>hi\<bar>"
    note close_near_190001 [OF assms(1,4) band [THEN conjunct2, THEN conjunct2]]
    from resolves_first [OF ne band [THEN conjunct1] band [THEN conjunct2, THEN conjunct1]
        assms(2) this]
    show "\<exists>j\<le>i. frqIdx_of L freqs hi = Inr j \<and>
               (j = i \<longleftrightarrow> (\<forall>k<i. \<not> np_isclose L (freqs ! k) hi 190000)) \<and>
               main L (timespy, freqs, Jn) band (Some hi) ''print'' frmt =
                 (case slice_Jn Jn j of
                    Inl e \<Rightarrow> ([], Some e)
                  | Inr Jnf \<Rightarrow> printJonesFreq L timespy Jnf hi)" .
  }
qed

text \<open>
  On the axis 100, 101 MHz the request 100190001 Hz is inside the band and resolves to
  index 0 (for every closeness test within the contract, \<open>frqIdx_of_190001_same\<close>):
  the run prints the slice of channel 0. The request \<open>freqs[1] + 189999\<close> lies above
  the band and fails.
\<close>

theorem frqIdx_of_near_tolerance_counterexample:
  "frqIdx_of demo_lib [100000000, 101000000] ([100000000, 101000000] ! 0 + 190001) = Inr 0 \<and>
   main demo_lib ([0, 1], [100000000, 101000000], demo_Jn) ''HBA''
     (Some ([100000000, 101000000] ! 0 + 190001)) ''print'' ''csv'' =
     ([Print ''Time, Freq, J11, J12, J21, J22'',
       Print ''2012-04-01T01:02:03,100190001.0,(1+0j),0j,0j,(1+0j)'',
       Print ''2012-04-01T01:02:04,100190001.0,(1+0j),0j,0j,(1+0j)''], None) \<and>
   main demo_lib ([0, 1], [100000000, 101000000], demo_Jn) ''HBA''
     (Some ([100000000, 101000000] ! 1 + 189999)) ''print'' ''csv'' =
     ([], Some (ValueError (Outside_of_band 101189999 ''HBA'')))"
  by (simp add: main_def main_with_def frqIdx_of_def np_where_def rtol_def
      slice_Jn_def demo_Jn_def demo_lib_def printJonesFreq_def jones_1f_outstring_def after_def)

theorem frqIdx_of_near_tolerance_witness:
  "frqIdx_of demo_lib [100000000, 101000000] 100189999 = Inr 0 \<and>
   frqIdx_of demo_lib [100000000, 101000000] 100190001 = Inr 0 \<and>
   main demo_lib ([0, 1], [100000000, 101000000], demo_Jn) ''HBA'' (Some 101189999)
     ''print'' ''csv'' = ([], Some (ValueError (Outside_of_band 101189999 ''HBA''))) \<and>
   main demo_lib ([0, 1], [100000000, 101000000], demo_Jn) ''HBA'' (Some 101190001)
     ''print'' ''csv'' = ([], Some (ValueError (Outside_of_band 101190001 ''HBA'')))"
proof -
  have a: "(0::nat) < length [100000000, 101000000::real]"
    "\<bar>100189999 - ([100000000, 101000000] ! 0 + 189999)\<bar> \<le> slack * \<bar>100189999::real\<bar>"
    "\<bar>100190001 - ([100000000, 101000000] ! 0 + 190001)\<bar> \<le> slack * \<bar>100190001::real\<bar>"
    by (simp_all add: slack_def)
  have b: "(1::nat) < length [100000000, 101000000::real]"
    "\<bar>101189999 - ([100000000, 101000000] ! 1 + 189999)\<bar> \<le> slack * \<bar>101189999::real\<bar>"
    "\<bar>101190001 - ([100000000, 101000000] ! 1 + 190001)\<bar> \<le> slack * \<bar>101190001::real\<bar>"
    by (simp_all add: slack_def)
  have in_lo: "hd [100000000, 101000000] \<le> (100189999::real) \<and>
               (100189999::real) \<le> last [100000000, 101000000]"
    by simp
  have in_hi: "hd [100000000, 101000000] \<le> (100190001::real) \<and>
               (100190001::real) \<le> last [100000000, 101000000] \<and>
               100001 \<le> \<bar>100190001::real\<bar>"
    by simp
  have out_lo: "(101189999::real) < hd [100000000, 101000000] \<or>
                last [100000000, 101000000] < (101189999::real)"
    by simp
  have out_hi: "(101190001::real) < hd [100000000, 101000000] \<or>
                last [100000000, 101000000] < (101190001::real)"
    by simp
  note at0 = frqIdx_of_near_tolerance [OF demo_contract a]
  note at1 = frqIdx_of_near_tolerance [OF demo_contract b, where timespy = "[0, 1]"
      and Jn = demo_Jn and band = "''HBA''" and action = "''print''" and frmt = "''csv''"]
  from at0 [THEN conjunct2, THEN conjunct2, THEN conjunct1, THEN mp, OF in_lo]
  have 1: "frqIdx_of demo_lib [100000000, 101000000] 100189999 = Inr 0"
    by auto
  from at0 [THEN conjunct2, THEN conjunct2, THEN conjunct2, THEN mp, OF in_hi]
  have 2: "frqIdx_of demo_lib [100000000, 101000000] 100190001 = Inr 0"
    by auto
  note 3 = at1 [THEN conjunct1, THEN mp, OF out_lo]
  note 4 = at1 [THEN conjunct2, THEN conjunct1, THEN mp, OF out_hi]
  from 1 2 3 4 show ?thesis by (intro conjI)
qed

subsection \<open>Station geometry\<close>

lemma column_one: "column field [r] = Arr0 (field r)"
  by (simp add: column_def)

lemma column_many: "length rows \<noteq> 1 \<Longrightarrow> column field rows = Arr1 (map field rows)"
  by (cases rows rule: list.exhaust; cases "tl rows") (auto simp: column_def)

lemma list_index_None: "list_index xs a = None \<longleftrightarrow> a \<notin> set xs"
  by (induction xs) auto

lemma list_index_Some:
  "list_index xs a = Some i \<Longrightarrow> i < length xs \<and> xs ! i = a \<and> (\<forall>k<i. xs ! k \<noteq> a)"
proof (induction xs arbitrary: i)
  case Nil
  then show ?case by simp
next
  case (Cons x xs)
  show ?case
  proof (cases "x = a")
    case True
    with Cons.prems show ?thesis by simp
  next
    case False
    with Cons.prems obtain j where j: "list_index xs a = Some j" and i: "i = Suc j"
      by auto
    from Cons.IH [OF j] have "j < length xs" "xs ! j = a" "\<forall>k<j. xs ! k \<noteq> a"
      by auto
    with False i show ?thesis
      by (auto simp: nth_Cons split: nat.splits)
  qed
qed

lemma S5_short: "length s \<le> 5 \<Longrightarrow> S5 s = s"
  by (simp add: S5_def)

lemma S5_names:
  "\<forall>r\<in>set rows. length (Name r) \<le> 5 \<Longrightarrow> map (\<lambda>r. S5 (Name r)) rows = map Name rows"
  by (simp add: S5_short)

lemma readarrcfg_rows:
  assumes "disk E (arrcfg_file E telescope band) = Some (Cfg_text rows)"
    and "length rows \<noteq> 1"
  shows "readarrcfg E telescope band =
           Inr (Arr1 (map X rows), Arr1 (map Y rows), Arr1 (map Z rows), Arr1 (map Diam rows),
                Arr1 (map (\<lambda>r. S5 (Name r)) rows))"
  using assms by (simp add: readarrcfg_def column_many)

lemma readarrcfg_one_row:
  assumes "disk E (arrcfg_file E telescope band) = Some (Cfg_text [r])"
  shows "readarrcfg E telescope band =
           Inr (Arr0 (X r), Arr0 (Y r), Arr0 (Z r), Arr0 (Diam r), Arr0 (S5 (Name r)))"
  using assms by (simp add: readarrcfg_def column_one)

lemma readalignment_Inr:
  "readalignment E telescope stnid band = Inr stnRot \<longleftrightarrow>
     disk E (stnrot_file E telescope stnid band) = Some (Matrix_text stnRot)"
  by (auto simp: readalignment_def split: option.splits content.splits)

text \<open>
  A configuration file of any number of rows but one: a name that is not among the loaded
  names is not found, whether or not an alignment file exists.
\<close>

lemma getArrayBandParams_absent:
  assumes "disk E (arrcfg_file E telescope band) = Some (Cfg_text rows)"
    and "length rows \<noteq> 1"
    and "stnid \<notin> set (map (\<lambda>r. S5 (Name r)) rows)"
  shows "getArrayBandParams E telescope stnid band = Inl (ValueError (Not_in_list stnid))"
proof -
  from assms(3) have "list_index (map (\<lambda>r. S5 (Name r)) rows) stnid = None"
    by (simp only: list_index_None not_False_eq_True)
  then show ?thesis
    by (simp add: getArrayBandParams_def readarrcfg_rows [OF assms(1,2)])
qed

text \<open>
  For such a file a geometry is returned only for a name that is present: the position
  is that of the first row of the name, the rotation the content of the alignment file.
\<close>

lemma getArrayBandParams_Inr:
  assumes "disk E (arrcfg_file E telescope band) = Some (Cfg_text rows)"
    and "length rows \<noteq> 1"
    and "getArrayBandParams E telescope stnid band = Inr (stnPos, stnRot)"
  shows "\<exists>i<length rows. S5 (Name (rows ! i)) = stnid \<and>
           (\<forall>k<i. S5 (Name (rows ! k)) \<noteq> stnid) \<and>
           stnPos = [X (rows ! i), Y (rows ! i), Z (rows ! i)] \<and>
           disk E (stnrot_file E telescope stnid band) = Some (Matrix_text stnRot)"
proof -
  let ?names = "map (\<lambda>r. S5 (Name r)) rows"
  note cfg = readarrcfg_rows [OF assms(1,2)]
  from assms(3) obtain i where i: "list_index ?names stnid = Some i"
    by (cases "list_index ?names stnid") (auto simp: getArrayBandParams_def cfg)
  from list_index_Some [OF i]
  have len: "i < length rows" and here: "S5 (Name (rows ! i)) = stnid"
    and first: "\<forall>k<i. S5 (Name (rows ! k)) \<noteq> stnid"
    by auto
  from assms(3) i len
  have "stnPos = [X (rows ! i), Y (rows ! i), Z (rows ! i)]"
    and "readalignment E telescope stnid band = Inr stnRot"
    by (auto simp: getArrayBandParams_def cfg split: sum.splits)
  with len here first show ?thesis
    by (auto simp: readalignment_Inr)
qed

text \<open>For such a file \<open>list_stations\<close> returns the loaded names in file order.\<close>

lemma list_stations_rows:
  assumes "disk E (arrcfg_file E telescope band) = Some (Cfg_text rows)"
    and "length rows \<noteq> 1"
  shows "list_stations E telescope band = Inr (Arr1 (map (\<lambda>r. S5 (Name r)) rows))"
  by (simp add: list_stations_def readarrcfg_rows [OF assms])

text \<open>
  A configuration file of exactly one row: the columns are zero-dimensional,
  \<open>list_stations\<close> returns a zero-dimensional array, and \<open>getArrayBandParams\<close>
  returns no geometry for any name.
\<close>

lemma list_stations_one_row:
  assumes "disk E (arrcfg_file E telescope band) = Some (Cfg_text [r])"
  shows "list_stations E telescope band = Inr (Arr0 (S5 (Name r)))"
  by (simp add: list_stations_def readarrcfg_one_row [OF assms])

lemma getArrayBandParams_one_row:
  assumes "disk E (arrcfg_file E telescope band) = Some (Cfg_text [r])"
  shows "getArrayBandParams E telescope stnid band =
           (case str_index (S5 (Name r)) stnid of
              None \<Rightarrow> Inl (ValueError Substring_not_found)
            | Some i \<Rightarrow> Inl IndexError)"
  by (simp add: getArrayBandParams_def readarrcfg_one_row [OF assms] split: option.splits)

lemma arrcfg_file_None: "arrcfg_file E telescope None = arrcfg_file E telescope (Some ''None'')"
  by (simp add: arrcfg_file_def)

text \<open>An unspecified band is read as the band named \<^verbatim>\<open>None\<close>.\<close>

lemma list_stations_None_band:
  "list_stations E telescope None = list_stations E telescope (Some ''None'')"
  by (simp only: list_stations_def readarrcfg_def arrcfg_file_None)

text \<open>
  C5. For a configuration file of any number of rows but one the claim holds
  (\<open>getArrayBandParams_absent\<close>, \<open>getArrayBandParams_Inr\<close>). For a file of one row,
  \<^verbatim>\<open>SE607\<close>, the code departs from it: the lookup of the absent name \<^verbatim>\<open>SE6\<close> is a
  substring search that finds position 0, and indexing the zero-dimensional column raises
  IndexError, not the not-found ValueError; the station \<^verbatim>\<open>SE607\<close> of that file
  cannot be resolved either. With the three-row file the same lookup is not found.
\<close>

theorem getArrayBandParams_one_row_run:
  "readarrcfg demo_env_one ''LOFAR'' (Some ''HBA'') =
     Inr (Arr0 3370272, Arr0 712125, Arr0 5349991, Arr0 0, Arr0 ''SE607'') \<and>
   getArrayBandParams demo_env_one ''LOFAR'' ''SE6'' (Some ''HBA'') = Inl IndexError \<and>
   getArrayBandParams demo_env_one ''LOFAR'' ''SE607'' (Some ''HBA'') = Inl IndexError \<and>
   getArrayBandParams demo_env ''LOFAR'' ''SE6'' (Some ''HBA'') =
     Inl (ValueError (Not_in_list ''SE6''))"
  by (simp add: getArrayBandParams_def readarrcfg_def readalignment_def arrcfg_file_def
      stnrot_file_def demo_env_def demo_env_one_def demo_rows_def S5_def column_def)

text \<open>
  C6. With an unspecified band \<open>list_stations\<close> does not fail fast with an error of
  its own: the band is rendered as the text \<^verbatim>\<open>None\<close> and the file name
  \<^verbatim>\<open>LOFAR_None.cfg\<close> is built from it. Where the package directory holds only
  \<^verbatim>\<open>LOFAR_HBA.cfg\<close> the call ends with the IOError of opening that file; where a
  file \<^verbatim>\<open>LOFAR_None.cfg\<close> exists the call returns its names.
\<close>

theorem list_stations_unspecified_band_run:
  "arrcfg_file demo_env ''LOFAR'' None =
     ''/opt/dreambeam/telescopes/LOFAR/share/simmos/LOFAR_None.cfg'' \<and>
   list_stations demo_env ''LOFAR'' None = Inl IOError \<and>
   list_stations demo_env_None ''LOFAR'' None = Inr (Arr1 [''CS002'', ''SE607'', ''SE607''])"
  by (simp add: list_stations_def readarrcfg_def arrcfg_file_def demo_env_def
      demo_env_None_def demo_rows_def S5_def column_def)

text \<open>
  C9. For a configuration file of any number of rows but one, \<open>list_stations\<close>
  returns the loaded names of all rows in file order, a repeated name as often as it
  occurs (\<open>list_stations_rows\<close>; the loaded names are the names as written when these
  have at most five characters, \<open>S5_names\<close>). For a file of one row the code returns
  a zero-dimensional array that holds the name, not a sequence of one name.
\<close>

theorem list_stations_one_row_run:
  "list_stations demo_env_one ''LOFAR'' (Some ''HBA'') = Inr (Arr0 ''SE607'') \<and>
   list_stations demo_env ''LOFAR'' (Some ''HBA'') = Inr (Arr1 [''CS002'', ''SE607'', ''SE607''])"
  by (simp add: list_stations_def readarrcfg_def arrcfg_file_def demo_env_def
      demo_env_one_def demo_rows_def S5_def column_def)

subsection \<open>Printing\<close>

lemma print_each_Inr:
  "print_each (map (\<lambda>x. Inr (g x)) xs) = (map (\<lambda>x. Print (g x)) xs, None)"
  by (induction xs) simp_all

lemma print_each_stop:
  "print_each (map (\<lambda>x. Inr (g x)) xs @ Inl e # rest) = (map (\<lambda>x. Print (g x)) xs, Some e)"
  by (induction xs) simp_all

lemma split_on_nosep: "c \<notin> set t \<Longrightarrow> split_on c t = [t]"
  by (induction t) auto

lemma split_on_sep: "c \<notin> set t \<Longrightarrow> split_on c (t @ c # rest) = t # split_on c rest"
  by (induction t) auto

lemma split_on_join:
  "ts \<noteq> [] \<Longrightarrow> \<forall>t\<in>set ts. c \<notin> set t \<Longrightarrow> split_on c (join [c] ts) = ts"
proof (induction "[c]" ts rule: join.induct)
  case 1
  then show ?case by simp
next
  case (2 s)
  then show ?case by (simp add: split_on_nosep)
next
  case (3 s t ts)
  then show ?case by (simp add: split_on_sep)
qed

lemma Jnf_rows_Arr3:
  "map (\<lambda>ti. case Jnf_at (Arr3 ms) ti of Inl e \<Rightarrow> Inl e | Inr J \<Rightarrow> Inr (g ti J)) [0..<n] =
     (if n \<le> length ms then map (\<lambda>ti. Inr (g ti (ms ! ti))) [0..<n]
      else map (\<lambda>ti. Inr (g ti (ms ! ti))) [0..<length ms] @ Inl IndexError #
           map (\<lambda>ti. Inl IndexError) [Suc (length ms)..<n])"
proof (cases "n \<le> length ms")
  case True
  then show ?thesis by simp
next
  case False
  then have "[0..<n] = [0..<length ms] @ length ms # [Suc (length ms)..<n]"
    by (metis le_add_diff_inverse le_eq_less_or_eq linorder_not_less upt_add_eq_append upt_conv_Cons zero_le)
  then show ?thesis using False by simp
qed

lemma printJonesFreq_Arr3:
  "printJonesFreq L timespy (Arr3 ms) freq =
     (Print ''Time, Freq, J11, J12, J21, J22'' #
      map (\<lambda>ti. Print (jones_1f_outstring L (timespy ! ti) freq (ms ! ti)))
        [0..<min (length timespy) (length ms)],
      if length timespy \<le> length ms then None else Some IndexError)"
  unfolding printJonesFreq_def Jnf_rows_Arr3
  by (simp add: after_def print_each_Inr print_each_stop min_def)

lemma print_each_all_Inl: "xs \<noteq> [] \<Longrightarrow> print_each (map (\<lambda>x. Inl e) xs) = ([], Some e)"
  by (cases xs) simp_all

lemma printJonesFreq_Arr2:
  "printJonesFreq L timespy (Arr2 m) freq =
     ([Print ''Time, Freq, J11, J12, J21, J22''], if timespy = [] then None else Some IndexError)"
proof (cases "timespy = []")
  case True
  then show ?thesis by (simp add: printJonesFreq_def after_def)
next
  case False
  then have "[0..<length timespy] \<noteq> []" by simp
  from print_each_all_Inl [OF this] False show ?thesis
    by (simp add: printJonesFreq_def after_def)
qed

lemma jones_1f_outstring_join:
  "jones_1f_outstring L t freq J =
     join '','' [isoformat L t, str_float L freq, str_complex L (j00 J), str_complex L (j01 J),
                 str_complex L (j10 J), str_complex L (j11 J)]"
  by (simp add: jones_1f_outstring_def)

lemma printJonesFreq_shape:
  "\<exists>rows. fst (printJonesFreq L timespy Jnf f) = Print ''Time, Freq, J11, J12, J21, J22'' # rows \<and>
          set rows \<subseteq> range (\<lambda>(t, J). Print (jones_1f_outstring L t f J))"
proof (cases Jnf)
  case (Arr3 ms)
  show ?thesis
    unfolding Arr3 printJonesFreq_Arr3 by auto
next
  case (Arr2 m)
  show ?thesis
    unfolding Arr2 printJonesFreq_Arr2 by simp
qed

lemma main_with_pinned_print_shape:
  "fst (main_with sel L (timespy, freqs, Jn) band (Some f) ''print'' frmt) = [] \<or>
   (\<exists>Jnf. main_with sel L (timespy, freqs, Jn) band (Some f) ''print'' frmt =
            printJonesFreq L timespy Jnf f)"
proof (cases "freqs = [] \<or> f < hd freqs \<or> last freqs < f")
  case True
  then show ?thesis by (auto simp: main_with_def)
next
  case False
  then have "main_with sel L (timespy, freqs, Jn) band (Some f) ''print'' frmt =
           (case sel freqs f of
              Inl e \<Rightarrow> ([], Some e)
            | Inr frqIdx \<Rightarrow>
                (case slice_Jn Jn frqIdx of
                   Inl e \<Rightarrow> ([], Some e)
                 | Inr Jnf \<Rightarrow> printJonesFreq L timespy Jnf f))"
    by (intro main_with_print_pinned) auto
  then show ?thesis
    by (auto split: sum.splits)
qed

lemma main_with_pinned_frmt:
  "main_with sel L grid band (Some f) action frmt = main_with sel L grid band (Some f) action frmt'"
  by (simp add: main_with_def split: prod.splits)

lemma main_with_plot_frmt:
  "main_with sel L grid band freq ''plot'' frmt = main_with sel L grid band freq ''plot'' frmt'"
  by (cases freq) (simp_all add: main_with_def split: prod.splits)

lemma print_each_append_Inr:
  "print_each (map (\<lambda>x. Inr (g x)) xs @ rest) =
     (map (\<lambda>x. Print (g x)) xs @ fst (print_each rest), snd (print_each rest))"
  by (induction xs) (simp_all add: case_prod_unfold)

lemma print_each_grid:
  "print_each (concat (map (\<lambda>ti. map (\<lambda>fi. Inr (g ti fi)) fs) ts)) =
     (concat (map (\<lambda>ti. map (\<lambda>fi. Print (g ti fi)) fs) ts), None)"
  by (induction ts) (simp_all add: print_each_append_Inr)

lemma Jn_at_in_range:
  "fi < length Jn \<Longrightarrow> ti < length (Jn ! fi) \<Longrightarrow> Jn_at Jn fi ti = Inr (Jn ! fi ! ti)"
  by (simp add: Jn_at_def)

lemma grid_bodies:
  assumes "length freqs \<le> length Jn"
    and "\<forall>fi<length freqs. length timespy \<le> length (Jn ! fi)"
  shows "concat (map (\<lambda>ti. map (\<lambda>fi.
            case Jn_at Jn fi ti of Inl e \<Rightarrow> Inl e | Inr J \<Rightarrow> Inr (g ti fi J))
          [0..<length freqs]) [0..<length timespy]) =
         concat (map (\<lambda>ti. map (\<lambda>fi. Inr (g ti fi (Jn ! fi ! ti)))
          [0..<length freqs]) [0..<length timespy])"
proof -
  have "Jn_at Jn fi ti = Inr (Jn ! fi ! ti)"
    if "fi < length freqs" and "ti < length timespy" for fi ti
    using that assms by (intro Jn_at_in_range) (auto simp: less_le_trans)
  then show ?thesis
    by (intro arg_cong [where f = concat] map_cong refl) simp
qed

lemma jones_nf_outstring_csv:
  "jones_nf_outstring L ''csv'' t freq J =
     Inr (join '',''
       [isoformat L t, str_float L freq, str_complex L (j00 J), str_complex L (j01 J),
        str_complex L (j10 J), str_complex L (j11 J)])"
  by (simp add: jones_nf_outstring_def)

lemma jones_nf_outstring_pac:
  "jones_nf_outstring L ''pac'' t freq J =
     Inr (join '' ''
       [str_float L (quantity_value L (isoformat L t)), str_float L freq,
        str_float L (Re (j00 J)), str_float L (Im (j00 J)),
        str_float L (Re (j01 J)), str_float L (Im (j01 J)),
        str_float L (Re (j10 J)), str_float L (Im (j10 J)),
        str_float L (Re (j11 J)), str_float L (Im (j11 J))])"
  by (simp add: jones_nf_outstring_def paccompf_def)

lemma printAllJones_csv:
  assumes "length freqs \<le> length Jn"
    and "\<forall>fi<length freqs. length timespy \<le> length (Jn ! fi)"
  shows "printAllJones L timespy freqs Jn ''csv'' =
     (Print ''Time, Freq, J00, J01, J10, J11'' #
      concat (map (\<lambda>ti. map (\<lambda>fi. Print (join '',''
         [isoformat L (timespy ! ti), str_float L (freqs ! fi),
          str_complex L (j00 (Jn ! fi ! ti)), str_complex L (j01 (Jn ! fi ! ti)),
          str_complex L (j10 (Jn ! fi ! ti)), str_complex L (j11 (Jn ! fi ! ti))]))
        [0..<length freqs]) [0..<length timespy]), None)"
  unfolding printAllJones_def jones_nf_outstring_csv grid_bodies [OF assms] print_each_grid
  by (simp add: after_def)

lemma printAllJones_pac:
  assumes "length freqs \<le> length Jn"
    and "\<forall>fi<length freqs. length timespy \<le> length (Jn ! fi)"
  shows "printAllJones L timespy freqs Jn ''pac'' =
     (concat (map (\<lambda>ti. map (\<lambda>fi. Print (join '' ''
         [str_float L (quantity_value L (isoformat L (timespy ! ti))), str_float L (freqs ! fi),
          str_float L (Re (j00 (Jn ! fi ! ti))), str_float L (Im (j00 (Jn ! fi ! ti))),
          str_float L (Re (j01 (Jn ! fi ! ti))), str_float L (Im (j01 (Jn ! fi ! ti))),
          str_float L (Re (j10 (Jn ! fi ! ti))), str_float L (Im (j10 (Jn ! fi ! ti))),
          str_float L (Re (j11 (Jn ! fi ! ti))), str_float L (Im (j11 (Jn ! fi ! ti)))]))
        [0..<length freqs]) [0..<length timespy]), None)"
  unfolding printAllJones_def jones_nf_outstring_pac grid_bodies [OF assms] print_each_grid
  by (simp add: after_def)

text \<open>
  C7 (as amended). When a single frequency is pinned, the output is the header
  \<^verbatim>\<open>Time, Freq, J11, J12, J21, J22\<close> followed by one row per time sample, and every
  row consists of six comma-separated fields: the time, the requested frequency, and the
  four entries of the Jones matrix. (A slice with a single time sample has lost its time
  axis in \<^verbatim>\<open>squeeze\<close>: then the header is printed and the first row raises.)
\<close>

theorem printJonesFreq_rows:
  "printJonesFreq L timespy (Arr3 ms) freq =
     (Print ''Time, Freq, J11, J12, J21, J22'' #
      map (\<lambda>ti. Print (join '',''
             [isoformat L (timespy ! ti), str_float L freq,
              str_complex L (j00 (ms ! ti)), str_complex L (j01 (ms ! ti)),
              str_complex L (j10 (ms ! ti)), str_complex L (j11 (ms ! ti))]))
        [0..<min (length timespy) (length ms)],
      if length timespy \<le> length ms then None else Some IndexError) \<and>
   printJonesFreq L timespy (Arr2 m) freq =
     ([Print ''Time, Freq, J11, J12, J21, J22''],
      if timespy = [] then None else Some IndexError) \<and>
   (list_all (\<lambda>s. CHR '','' \<notin> set s)
      [isoformat L t, str_float L freq, str_complex L (j00 J), str_complex L (j01 J),
       str_complex L (j10 J), str_complex L (j11 J)] \<longrightarrow>
    split_on CHR '','' (jones_1f_outstring L t freq J) =
      [isoformat L t, str_float L freq, str_complex L (j00 J), str_complex L (j01 J),
       str_complex L (j10 J), str_complex L (j11 J)])"
proof (intro conjI impI)
  show "printJonesFreq L timespy (Arr3 ms) freq =
     (Print ''Time, Freq, J11, J12, J21, J22'' #
      map (\<lambda>ti. Print (join '',''
             [isoformat L (timespy ! ti), str_float L freq,
              str_complex L (j00 (ms ! ti)), str_complex L (j01 (ms ! ti)),
              str_complex L (j10 (ms ! ti)), str_complex L (j11 (ms ! ti))]))
        [0..<min (length timespy) (length ms)],
      if length timespy \<le> length ms then None else Some IndexError)"
    by (simp only: printJonesFreq_Arr3 jones_1f_outstring_join)
  show "printJonesFreq L timespy (Arr2 m) freq =
     ([Print ''Time, Freq, J11, J12, J21, J22''],
      if timespy = [] then None else Some IndexError)"
    by (rule printJonesFreq_Arr2)
next
  let ?tokens = "[isoformat L t, str_float L freq, str_complex L (j00 J), str_complex L (j01 J),
       str_complex L (j10 J), str_complex L (j11 J)]"
  assume "list_all (\<lambda>s. CHR '','' \<notin> set s) ?tokens"
  then have free: "\<forall>s\<in>set ?tokens. CHR '','' \<notin> set s"
    by (simp only: list_all_iff)
  have "split_on CHR '','' (join [CHR '',''] ?tokens) = ?tokens"
    by (rule split_on_join [OF _ free]) simp
  then show "split_on CHR '','' (jones_1f_outstring L t freq J) = ?tokens"
    by (simp only: jones_1f_outstring_join)
qed

text \<open>
  Two time samples at 100 MHz: each row has six fields, and the second is the frequency.
\<close>

theorem printJonesFreq_rows_counterexample:
  "printJonesFreq demo_lib [0, 1] (Arr3 [Jones 1 0 0 1, Jones 1 0 0 1]) 100000000 =
     ([Print ''Time, Freq, J11, J12, J21, J22'',
       Print ''2012-04-01T01:02:03,100000000.0,(1+0j),0j,0j,(1+0j)'',
       Print ''2012-04-01T01:02:04,100000000.0,(1+0j),0j,0j,(1+0j)''], None) \<and>
   split_on CHR '','' ''2012-04-01T01:02:03,100000000.0,(1+0j),0j,0j,(1+0j)'' =
     [''2012-04-01T01:02:03'', ''100000000.0'', ''(1+0j)'', ''0j'', ''0j'', ''(1+0j)''] \<and>
   str_float demo_lib 100000000 = ''100000000.0''"
  by (simp add: demo_lib_def printJonesFreq_def jones_1f_outstring_def after_def)

theorem printJonesFreq_rows_witness:
  "split_on CHR '','' (jones_1f_outstring demo_lib 0 100000000 (Jones 1 0 0 1)) =
     [''2012-04-01T01:02:03'', ''100000000.0'', ''(1+0j)'', ''0j'', ''0j'', ''(1+0j)'']"
proof -
  have free: "list_all (\<lambda>s. CHR '','' \<notin> set s)
      [isoformat demo_lib 0, str_float demo_lib 100000000,
       str_complex demo_lib (j00 (Jones 1 0 0 1)), str_complex demo_lib (j01 (Jones 1 0 0 1)),
       str_complex demo_lib (j10 (Jones 1 0 0 1)), str_complex demo_lib (j11 (Jones 1 0 0 1))]"
    by (simp add: demo_lib_def)
  from printJonesFreq_rows [THEN conjunct2, THEN conjunct2, THEN mp, OF free]
  show ?thesis by (simp add: demo_lib_def)
qed

text \<open>
  C8. For a tensor that covers the time and frequency axes, the \<^verbatim>\<open>pac\<close> format
  prints no header and one row per time and frequency, the ten tokens time, frequency and
  real and imaginary part of each of the four entries joined by single spaces; the
  \<^verbatim>\<open>csv\<close> format prints the header \<^verbatim>\<open>Time, Freq, J00, J01, J10, J11\<close> and rows of
  six tokens joined by commas, each complex entry one token. Read back at the delimiter
  (renderings free of it), a \<^verbatim>\<open>pac\<close> row has ten fields and a \<^verbatim>\<open>csv\<close> row six.
\<close>

theorem printAllJones_formats:
  assumes "length freqs \<le> length Jn"
    and "\<forall>fi<length freqs. length timespy \<le> length (Jn ! fi)"
  shows "printAllJones L timespy freqs Jn ''pac'' =
     (concat (map (\<lambda>ti. map (\<lambda>fi. Print (join '' ''
         [str_float L (quantity_value L (isoformat L (timespy ! ti))), str_float L (freqs ! fi),
          str_float L (Re (j00 (Jn ! fi ! ti))), str_float L (Im (j00 (Jn ! fi ! ti))),
          str_float L (Re (j01 (Jn ! fi ! ti))), str_float L (Im (j01 (Jn ! fi ! ti))),
          str_float L (Re (j10 (Jn ! fi ! ti))), str_float L (Im (j10 (Jn ! fi ! ti))),
          str_float L (Re (j11 (Jn ! fi ! ti))), str_float L (Im (j11 (Jn ! fi ! ti)))]))
        [0..<length freqs]) [0..<length timespy]), None) \<and>
   printAllJones L timespy freqs Jn ''csv'' =
     (Print ''Time, Freq, J00, J01, J10, J11'' #
      concat (map (\<lambda>ti. map (\<lambda>fi. Print (join '',''
         [isoformat L (timespy ! ti), str_float L (freqs ! fi),
          str_complex L (j00 (Jn ! fi ! ti)), str_complex L (j01 (Jn ! fi ! ti)),
          str_complex L (j10 (Jn ! fi ! ti)), str_complex L (j11 (Jn ! fi ! ti))]))
        [0..<length freqs]) [0..<length timespy]), None) \<and>
   (list_all (\<lambda>s. CHR '' '' \<notin> set s)
      [str_float L (quantity_value L (isoformat L t)), str_float L freq,
       str_float L (Re (j00 J)), str_float L (Im (j00 J)),
       str_float L (Re (j01 J)), str_float L (Im (j01 J)),
       str_float L (Re (j10 J)), str_float L (Im (j10 J)),
       str_float L (Re (j11 J)), str_float L (Im (j11 J))] \<longrightarrow>
    map_sum id (split_on CHR '' '') (jones_nf_outstring L ''pac'' t freq J) =
      Inr [str_float L (quantity_value L (isoformat L t)), str_float L freq,
           str_float L (Re (j00 J)), str_float L (Im (j00 J)),
           str_float L (Re (j01 J)), str_float L (Im (j01 J)),
           str_float L (Re (j10 J)), str_float L (Im (j10 J)),
           str_float L (Re (j11 J)), str_float L (Im (j11 J))]) \<and>
   (list_all (\<lambda>s. CHR '','' \<notin> set s)
      [isoformat L t, str_float L freq, str_complex L (j00 J), str_complex L (j01 J),
       str_complex L (j10 J), str_complex L (j11 J)] \<longrightarrow>
    map_sum id (split_on CHR '','') (jones_nf_outstring L ''csv'' t freq J) =
      Inr [isoformat L t, str_float L freq, str_complex L (j00 J), str_complex L (j01 J),
           str_complex L (j10 J), str_complex L (j11 J)])"
proof (intro conjI impI)
  let ?pac = "[str_float L (quantity_value L (isoformat L t)), str_float L freq,
       str_float L (Re (j00 J)), str_float L (Im (j00 J)),
       str_float L (Re (j01 J)), str_float L (Im (j01 J)),
       str_float L (Re (j10 J)), str_float L (Im (j10 J)),
       str_float L (Re (j11 J)), str_float L (Im (j11 J))]"
  assume "list_all (\<lambda>s. CHR '' '' \<notin> set s) ?pac"
  then have free: "\<forall>s\<in>set ?pac. CHR '' '' \<notin> set s"
    by (simp only: list_all_iff)
  have "split_on CHR '' '' (join [CHR '' ''] ?pac) = ?pac"
    by (rule split_on_join [OF _ free]) simp
  then show "map_sum id (split_on CHR '' '') (jones_nf_outstring L ''pac'' t freq J) = Inr ?pac"
    by (simp only: jones_nf_outstring_pac map_sum.simps)
next
  let ?csv = "[isoformat L t, str_float L freq, str_complex L (j00 J), str_complex L (j01 J),
       str_complex L (j10 J), str_complex L (j11 J)]"
  assume "list_all (\<lambda>s. CHR '','' \<notin> set s) ?csv"
  then have free: "\<forall>s\<in>set ?csv. CHR '','' \<notin> set s"
    by (simp only: list_all_iff)
  have "split_on CHR '','' (join [CHR '',''] ?csv) = ?csv"
    by (rule split_on_join [OF _ free]) simp
  then show "map_sum id (split_on CHR '','') (jones_nf_outstring L ''csv'' t freq J) = Inr ?csv"
    by (simp only: jones_nf_outstring_csv map_sum.simps)
qed (rule printAllJones_pac [OF assms] printAllJones_csv [OF assms])+

theorem printAllJones_formats_witness:
  "printAllJones demo_lib [0, 1] [100000000, 101000000] demo_Jn ''pac'' =
     ([Print ''56018.0 100000000.0 1.0 0.0 0.0 0.0 0.0 0.0 1.0 0.0'',
       Print ''56018.0 101000000.0 0.0 0.0 1.0 0.0 1.0 0.0 0.0 0.0'',
       Print ''56018.0 100000000.0 1.0 0.0 0.0 0.0 0.0 0.0 1.0 0.0'',
       Print ''56018.0 101000000.0 0.0 0.0 1.0 0.0 1.0 0.0 0.0 0.0''], None) \<and>
   printAllJones demo_lib [0, 1] [100000000, 101000000] demo_Jn ''csv'' =
     ([Print ''Time, Freq, J00, J01, J10, J11'',
       Print ''2012-04-01T01:02:03,100000000.0,(1+0j),0j,0j,(1+0j)'',
       Print ''2012-04-01T01:02:03,101000000.0,0j,(1+0j),(1+0j),0j'',
       Print ''2012-04-01T01:02:04,100000000.0,(1+0j),0j,0j,(1+0j)'',
       Print ''2012-04-01T01:02:04,101000000.0,0j,(1+0j),(1+0j),0j''], None) \<and>
   map_sum id (split_on CHR '' '')
     (jones_nf_outstring demo_lib ''pac'' 0 100000000 (Jones 1 0 0 1)) =
     Inr [''56018.0'', ''100000000.0'', ''1.0'', ''0.0'', ''0.0'', ''0.0'', ''0.0'', ''0.0'',
          ''1.0'', ''0.0''] \<and>
   map_sum id (split_on CHR '','')
     (jones_nf_outstring demo_lib ''csv'' 0 100000000 (Jones 1 0 0 1)) =
     Inr [''2012-04-01T01:02:03'', ''100000000.0'', ''(1+0j)'', ''0j'', ''0j'', ''(1+0j)'']"
proof -
  have shape: "length [100000000, 101000000::real] \<le> length demo_Jn"
    "\<forall>fi<length [100000000, 101000000::real]. length [0, 1::nat] \<le> length (demo_Jn ! fi)"
    by (simp_all add: demo_Jn_def less_Suc_eq)
  have pac_free: "list_all (\<lambda>s. CHR '' '' \<notin> set s)
      [str_float demo_lib (quantity_value demo_lib (isoformat demo_lib 0)),
       str_float demo_lib 100000000,
       str_float demo_lib (Re (j00 (Jones 1 0 0 1))), str_float demo_lib (Im (j00 (Jones 1 0 0 1))),
       str_float demo_lib (Re (j01 (Jones 1 0 0 1))), str_float demo_lib (Im (j01 (Jones 1 0 0 1))),
       str_float demo_lib (Re (j10 (Jones 1 0 0 1))), str_float demo_lib (Im (j10 (Jones 1 0 0 1))),
       str_float demo_lib (Re (j11 (Jones 1 0 0 1))), str_float demo_lib (Im (j11 (Jones 1 0 0 1)))]"
    by (simp add: demo_lib_def)
  have csv_free: "list_all (\<lambda>s. CHR '','' \<notin> set s)
      [isoformat demo_lib 0, str_float demo_lib 100000000,
       str_complex demo_lib (j00 (Jones 1 0 0 1)), str_complex demo_lib (j01 (Jones 1 0 0 1)),
       str_complex demo_lib (j10 (Jones 1 0 0 1)), str_complex demo_lib (j11 (Jones 1 0 0 1))]"
    by (simp add: demo_lib_def)
  note inst = printAllJones_formats [OF shape, of demo_lib]
  have 1: "printAllJones demo_lib [0, 1] [100000000, 101000000] demo_Jn ''pac'' =
     ([Print ''56018.0 100000000.0 1.0 0.0 0.0 0.0 0.0 0.0 1.0 0.0'',
       Print ''56018.0 101000000.0 0.0 0.0 1.0 0.0 1.0 0.0 0.0 0.0'',
       Print ''56018.0 100000000.0 1.0 0.0 0.0 0.0 0.0 0.0 1.0 0.0'',
       Print ''56018.0 101000000.0 0.0 0.0 1.0 0.0 1.0 0.0 0.0 0.0''], None)"
    unfolding inst [THEN conjunct1] by (simp add: demo_lib_def demo_Jn_def)
  have 2: "printAllJones demo_lib [0, 1] [100000000, 101000000] demo_Jn ''csv'' =
     ([Print ''Time, Freq, J00, J01, J10, J11'',
       Print ''2012-04-01T01:02:03,100000000.0,(1+0j),0j,0j,(1+0j)'',
       Print ''2012-04-01T01:02:03,101000000.0,0j,(1+0j),(1+0j),0j'',
       Print ''2012-04-01T01:02:04,100000000.0,(1+0j),0j,0j,(1+0j)'',
       Print ''2012-04-01T01:02:04,101000000.0,0j,(1+0j),(1+0j),0j''], None)"
    unfolding inst [THEN conjunct2, THEN conjunct1] by (simp add: demo_lib_def demo_Jn_def)
  from inst [THEN conjunct2, THEN conjunct2, THEN conjunct1, THEN mp, OF pac_free]
  have 3: "map_sum id (split_on CHR '' '')
     (jones_nf_outstring demo_lib ''pac'' 0 100000000 (Jones 1 0 0 1)) =
     Inr [''56018.0'', ''100000000.0'', ''1.0'', ''0.0'', ''0.0'', ''0.0'', ''0.0'', ''0.0'',
          ''1.0'', ''0.0'']"
    by (simp add: demo_lib_def)
  from inst [THEN conjunct2, THEN conjunct2, THEN conjunct2, THEN mp, OF csv_free]
  have 4: "map_sum id (split_on CHR '','')
     (jones_nf_outstring demo_lib ''csv'' 0 100000000 (Jones 1 0 0 1)) =
     Inr [''2012-04-01T01:02:03'', ''100000000.0'', ''(1+0j)'', ''0j'', ''0j'', ''(1+0j)'']"
    by (simp add: demo_lib_def)
  from 1 2 3 4 show ?thesis by (intro conjI)
qed

text \<open>
  C10. With a pinned frequency the run of \<open>main\<close> does not depend on the format flag,
  for the print action as for any other; with the plot action it never does. The print
  action with a pinned frequency prints nothing (when it fails before printing) or the
  header \<^verbatim>\<open>Time, Freq, J11, J12, J21, J22\<close> followed by comma-joined rows only.
\<close>

theorem main_pinned_ignores_frmt:
  "main L (timespy, freqs, Jn) band (Some f) action frmt =
     main L (timespy, freqs, Jn) band (Some f) action frmt' \<and>
   main L (timespy, freqs, Jn) band freq ''plot'' frmt =
     main L (timespy, freqs, Jn) band freq ''plot'' frmt' \<and>
   (fst (main L (timespy, freqs, Jn) band (Some f) ''print'' frmt) = [] \<or>
    (\<exists>rows. fst (main L (timespy, freqs, Jn) band (Some f) ''print'' frmt) =
              Print ''Time, Freq, J11, J12, J21, J22'' # rows \<and>
            set rows \<subseteq> range (\<lambda>(t, J). Print (jones_1f_outstring L t f J))))"
proof (intro conjI)
  show "main L (timespy, freqs, Jn) band (Some f) action frmt =
     main L (timespy, freqs, Jn) band (Some f) action frmt'"
    unfolding main_def by (rule main_with_pinned_frmt)
  show "main L (timespy, freqs, Jn) band freq ''plot'' frmt =
     main L (timespy, freqs, Jn) band freq ''plot'' frmt'"
    unfolding main_def by (rule main_with_plot_frmt)
  show "fst (main L (timespy, freqs, Jn) band (Some f) ''print'' frmt) = [] \<or>
    (\<exists>rows. fst (main L (timespy, freqs, Jn) band (Some f) ''print'' frmt) =
              Print ''Time, Freq, J11, J12, J21, J22'' # rows \<and>
            set rows \<subseteq> range (\<lambda>(t, J). Print (jones_1f_outstring L t f J)))"
    using main_with_pinned_print_shape [of "frqIdx_of L" L timespy freqs Jn band f frmt]
      printJonesFreq_shape [of L timespy _ f]
    unfolding main_def by metis
qed

theorem main_pinned_ignores_frmt_witness:
  "main demo_lib ([0, 1], [100000000, 101000000], demo_Jn) ''HBA'' (Some 100000000) ''print'' ''pac'' =
   main demo_lib ([0, 1], [100000000, 101000000], demo_Jn) ''HBA'' (Some 100000000) ''print'' ''csv'' \<and>
   main demo_lib ([0, 1], [100000000, 101000000], demo_Jn) ''HBA'' (Some 100000000) ''print'' ''csv'' =
     ([Print ''Time, Freq, J11, J12, J21, J22'',
       Print ''2012-04-01T01:02:03,100000000.0,(1+0j),0j,0j,(1+0j)'',
       Print ''2012-04-01T01:02:04,100000000.0,(1+0j),0j,0j,(1+0j)''], None)"
proof -
  have run: "main demo_lib ([0, 1], [100000000, 101000000], demo_Jn) ''HBA'' (Some 100000000)
               ''print'' ''csv'' =
     ([Print ''Time, Freq, J11, J12, J21, J22'',
       Print ''2012-04-01T01:02:03,100000000.0,(1+0j),0j,0j,(1+0j)'',
       Print ''2012-04-01T01:02:04,100000000.0,(1+0j),0j,0j,(1+0j)''], None)"
    by (simp add: main_def main_with_def frqIdx_of_def np_where_def rtol_def
        slice_Jn_def demo_Jn_def demo_lib_def printJonesFreq_def jones_1f_outstring_def after_def)
  from main_pinned_ignores_frmt [THEN conjunct1,
      of demo_lib "[0, 1]" "[100000000, 101000000]" demo_Jn "''HBA''" 100000000 "''print''"
         "''pac''" "''csv''"]
    run
  show ?thesis by (intro conjI)
qed

end
